theory Spec2Isabelle
  imports Main "HOL-Library.Sublist"
begin

section \<open>Python values, exceptions and the wire\<close>

text \<open>
  The harness only handles values that come out of \<^verbatim>\<open>response.json()\<close> or go into a
  \<^verbatim>\<open>json=\<close> argument, so a Python value is a JSON value: \<open>JNull\<close> is \<^verbatim>\<open>None\<close>,
  \<open>JObj\<close> is a \<^verbatim>\<open>dict\<close> (an association list read at its first binding of a key),
  \<open>JList\<close> a \<^verbatim>\<open>list\<close>, \<open>JInt\<close> an unbounded \<^verbatim>\<open>int\<close>. The counters of the status snapshot
  are integers; Python floats are outside this model.
\<close>

datatype json =
    JNull
  | JBool bool
  | JInt int
  | JStr string
  | JList "json list"
  | JObj "(string \<times> json) list"

text \<open>
  Exceptions are values. The httpx classes keep their names; the subclasses of
  \<^verbatim>\<open>httpx.TimeoutException\<close> are listed because an \<^verbatim>\<open>except\<close> clause catches them with
  their base class. \<open>HTTPStatusError\<close> carries the status code of the response that
  \<^verbatim>\<open>raise_for_status\<close> refused. \<open>OtherError\<close> stands for every class not named here
  (for instance the exceptions of the requests library).
\<close>

datatype exn =
    AssertionError
  | KeyError string
  | TypeError
  | AttributeError
  | JSONDecodeError
  | ConnectError
  | TimeoutException
  | ConnectTimeout
  | ReadTimeout
  | WriteTimeout
  | PoolTimeout
  | HTTPStatusError nat
  | ReadError
  | WriteError
  | CloseError
  | ProxyError
  | UnsupportedProtocol
  | LocalProtocolError
  | RemoteProtocolError
  | DecodingError
  | TooManyRedirects
  | InvalidURL
  | OtherError string

datatype http_method = GET | POST

record request =
  req_method :: http_method
  req_url :: string
  req_json :: "json option"
  req_headers :: "(string \<times> string) list"
  req_timeout :: "nat option"

text \<open>
  A response as the harness reads it: the status code, the raw body (\<^verbatim>\<open>response.text\<close>)
  and what \<^verbatim>\<open>response.json()\<close> returns, \<open>None\<close> when the body does not decode (the
  decoder belongs to the HTTP library and is not modelled).
\<close>

record response =
  status_code :: nat
  resp_text :: string
  resp_json :: "json option"

text \<open>
  Formatted output. \<open>Lit\<close> is literal text; \<open>Fmt v\<close> is \<^verbatim>\<open>str(v)\<close> of a Python value inside
  an f-string, \<open>FmtExn e\<close> is \<^verbatim>\<open>str(exc)\<close>, \<open>Dumps v\<close> is \<^verbatim>\<open>json.dumps(v, indent=2)\<close>; the
  three are library formatters and stay symbolic.
\<close>

datatype piece = Lit string | Fmt json | FmtExn exn | Dumps json

type_synonym line = "piece list"

text \<open>Everything the harness does to the outside world, in order.\<close>

datatype action = Request request | Sleep nat | Print line

text \<open>
  The service under test is external: it answers a request knowing only what the harness
  has done so far. An answer is a response, or the exception the HTTP library raises.
\<close>

type_synonym service = "action list \<Rightarrow> request \<Rightarrow> exn + response"

type_synonym environ = "string \<rightharpoonup> string"


section \<open>Configuration\<close>

definition getenv :: "environ \<Rightarrow> string \<Rightarrow> string \<Rightarrow> string" where
  "getenv env key dflt = (case env key of None \<Rightarrow> dflt | Some v \<Rightarrow> v)"

text \<open>\<^verbatim>\<open>evals/conftest.py\<close>\<close>

definition API_URL :: "environ \<Rightarrow> string" where
  "API_URL env = getenv env ''MASTER_AGENT_API_URL'' ''http://localhost:8080''"

definition A2A_URL :: "environ \<Rightarrow> string" where
  "A2A_URL env = getenv env ''MASTER_AGENT_A2A_URL'' ''http://localhost:8084''"

text \<open>\<^verbatim>\<open>evals/master_agent/agent.py\<close>: its own \<^verbatim>\<open>A2A_URL\<close>, and the agent card built from it.\<close>

definition agent_A2A_URL :: "environ \<Rightarrow> string" where
  "agent_A2A_URL env = getenv env ''MASTER_AGENT_A2A_URL'' ''http://localhost:8084''"

definition agent_card :: "environ \<Rightarrow> string" where
  "agent_card env = agent_A2A_URL env @ ''/.well-known/agent-card.json''"

text \<open>\<^verbatim>\<open>test_mcp.py\<close>: a module constant, read from no environment.\<close>

definition MCP_URL :: string where
  "MCP_URL = ''http://localhost:8083''"


section \<open>Python operations on values\<close>

text \<open>\<^verbatim>\<open>needle in haystack\<close> on two strings: some suffix of the haystack starts with the needle.\<close>

fun str_in :: "string \<Rightarrow> string \<Rightarrow> bool" where
  "str_in needle [] = (needle = [])"
| "str_in needle (c # cs) = (prefix needle (c # cs) \<or> str_in needle cs)"

text \<open>\<^verbatim>\<open>s.split(sep)\<close> for a one-character separator: never empty, so \<^verbatim>\<open>[-1]\<close> is \<open>last\<close>.\<close>

fun split_str :: "char \<Rightarrow> string \<Rightarrow> string list" where
  "split_str sep [] = [[]]"
| "split_str sep (c # cs) =
     (if c = sep then [] # split_str sep cs
      else (case split_str sep cs of [] \<Rightarrow> [[c]] | w # ws \<Rightarrow> (c # w) # ws))"

text \<open>\<^verbatim>\<open>v[key]\<close> with a string key: only a dict can be read so; a missing key raises.\<close>

fun py_getitem :: "json \<Rightarrow> string \<Rightarrow> exn + json" where
  "py_getitem (JObj kvs) key =
     (case map_of kvs key of None \<Rightarrow> Inl (KeyError key) | Some v \<Rightarrow> Inr v)"
| "py_getitem _ key = Inl TypeError"

text \<open>\<^verbatim>\<open>v.get(key, default)\<close>: a method of dicts only.\<close>

fun py_get :: "json \<Rightarrow> string \<Rightarrow> json \<Rightarrow> exn + json" where
  "py_get (JObj kvs) key dflt =
     Inr (case map_of kvs key of None \<Rightarrow> dflt | Some v \<Rightarrow> v)"
| "py_get _ key dflt = Inl AttributeError"

text \<open>\<^verbatim>\<open>key in v\<close> with a string on the left.\<close>

fun py_contains :: "string \<Rightarrow> json \<Rightarrow> exn + bool" where
  "py_contains s (JObj kvs) = Inr (s \<in> set (map fst kvs))"
| "py_contains s (JList xs) = Inr (JStr s \<in> set xs)"
| "py_contains s (JStr t) = Inr (str_in s t)"
| "py_contains s _ = Inl TypeError"

fun py_len :: "json \<Rightarrow> exn + nat" where
  "py_len (JList xs) = Inr (length xs)"
| "py_len (JStr s) = Inr (length s)"
| "py_len (JObj kvs) = Inr (length (remdups (map fst kvs)))"
| "py_len _ = Inl TypeError"

text \<open>\<^verbatim>\<open>for x in v\<close>: the elements of a list, the keys of a dict, the characters of a string.\<close>

fun py_iter :: "json \<Rightarrow> exn + json list" where
  "py_iter (JList xs) = Inr xs"
| "py_iter (JObj kvs) = Inr (map JStr (remdups (map fst kvs)))"
| "py_iter (JStr s) = Inr (map (\<lambda>c. JStr [c]) s)"
| "py_iter _ = Inl TypeError"

text \<open>\<^verbatim>\<open>v >= k\<close> and \<^verbatim>\<open>v <= k\<close> against an int: numbers compare (a bool as 0 or 1), the rest raise.\<close>

fun py_ge :: "json \<Rightarrow> int \<Rightarrow> exn + bool" where
  "py_ge (JInt n) k = Inr (n \<ge> k)"
| "py_ge (JBool b) k = Inr ((if b then 1 else 0) \<ge> k)"
| "py_ge _ k = Inl TypeError"

fun py_le :: "json \<Rightarrow> int \<Rightarrow> exn + bool" where
  "py_le (JInt n) k = Inr (n \<le> k)"
| "py_le (JBool b) k = Inr ((if b then 1 else 0) \<le> k)"
| "py_le _ k = Inl TypeError"

text \<open>Truthiness, for \<^verbatim>\<open>arguments or {}\<close>.\<close>

fun py_truthy :: "json \<Rightarrow> bool" where
  "py_truthy JNull = False"
| "py_truthy (JBool b) = b"
| "py_truthy (JInt n) = (n \<noteq> 0)"
| "py_truthy (JStr s) = (s \<noteq> [])"
| "py_truthy (JList xs) = (xs \<noteq> [])"
| "py_truthy (JObj kvs) = (kvs \<noteq> [])"

definition py_or :: "json \<Rightarrow> json \<Rightarrow> json" where
  "py_or a b = (if py_truthy a then a else b)"

text \<open>\<^verbatim>\<open>response.json()\<close>\<close>

definition json_of :: "response \<Rightarrow> exn + json" where
  "json_of resp = (case resp_json resp of None \<Rightarrow> Inl JSONDecodeError | Some v \<Rightarrow> Inr v)"


section \<open>Running harness code\<close>

text \<open>
  A piece of harness code starts from the actions done so far and either returns a value
  or raises, having appended its own actions.
\<close>

type_synonym 'a io = "action list \<Rightarrow> (exn + 'a) \<times> action list"

definition io_return :: "'a \<Rightarrow> 'a io" where
  "io_return x tr = (Inr x, tr)"

definition io_raise :: "exn \<Rightarrow> 'a io" where
  "io_raise e tr = (Inl e, tr)"

definition io_bind :: "'a io \<Rightarrow> ('a \<Rightarrow> 'b io) \<Rightarrow> 'b io" where
  "io_bind m f tr = (case m tr of (Inl e, tr') \<Rightarrow> (Inl e, tr') | (Inr x, tr') \<Rightarrow> f x tr')"

definition io_lift :: "exn + 'a \<Rightarrow> 'a io" where
  "io_lift r tr = (r, tr)"

definition py_assert :: "bool \<Rightarrow> unit io" where
  "py_assert b = (if b then io_return () else io_raise AssertionError)"

definition send :: "service \<Rightarrow> request \<Rightarrow> response io" where
  "send svc req tr = (svc tr req, tr @ [Request req])"

definition sleep :: "nat \<Rightarrow> unit io" where
  "sleep secs tr = (Inr (), tr @ [Sleep secs])"

definition print :: "line \<Rightarrow> unit io" where
  "print l tr = (Inr (), tr @ [Print l])"


section \<open>Shared fixtures (\<^verbatim>\<open>evals/conftest.py\<close>)\<close>

text \<open>
  httpx: \<^verbatim>\<open>Response.is_success\<close> is the 2xx range, and \<^verbatim>\<open>raise_for_status\<close> raises
  \<^verbatim>\<open>HTTPStatusError\<close> for every response outside it.
\<close>

definition is_success :: "response \<Rightarrow> bool" where
  "is_success resp = (200 \<le> status_code resp \<and> status_code resp \<le> 299)"

definition raise_for_status :: "response \<Rightarrow> exn + response" where
  "raise_for_status resp =
     (if is_success resp then Inr resp else Inl (HTTPStatusError (status_code resp)))"

text \<open>
  \<^verbatim>\<open>except (httpx.ConnectError, httpx.TimeoutException, httpx.HTTPStatusError)\<close>: the three
  classes and, with \<^verbatim>\<open>TimeoutException\<close>, its four subclasses.
\<close>

fun health_gate_catches :: "exn \<Rightarrow> bool" where
  "health_gate_catches ConnectError = True"
| "health_gate_catches TimeoutException = True"
| "health_gate_catches ConnectTimeout = True"
| "health_gate_catches ReadTimeout = True"
| "health_gate_catches WriteTimeout = True"
| "health_gate_catches PoolTimeout = True"
| "health_gate_catches (HTTPStatusError code) = True"
| "health_gate_catches _ = False"

text \<open>\<^verbatim>\<open>httpx.get(f"{API_URL}/v0/agent/status", timeout=5)\<close>\<close>

definition health_probe :: "environ \<Rightarrow> request" where
  "health_probe env =
     \<lparr>req_method = GET, req_url = API_URL env @ ''/v0/agent/status'', req_json = None,
      req_headers = [], req_timeout = Some 5\<rparr>"

text \<open>How a fixture ends: with its value, with \<^verbatim>\<open>pytest.skip(message)\<close>, or with an exception.\<close>

datatype fixture_end = Ready | Skip line | Raised exn

definition check_agent_health :: "environ \<Rightarrow> service \<Rightarrow> action list \<Rightarrow> fixture_end \<times> action list" where
  "check_agent_health env svc tr =
     (case io_bind (send svc (health_probe env)) (\<lambda>resp. io_lift (raise_for_status resp)) tr of
        (Inr _, tr') \<Rightarrow> (Ready, tr')
      | (Inl exc, tr') \<Rightarrow>
          if health_gate_catches exc
          then (Skip [Lit ''Master agent not reachable at '', Lit (API_URL env), Lit '': '',
                      FmtExn exc], tr')
          else (Raised exc, tr'))"

text \<open>
  \<^verbatim>\<open>httpx.Client(base_url=API_URL, timeout=30)\<close>. A request path is appended to the base
  URL, which is what httpx's merge yields for a base URL that does not end in a slash.
\<close>

record client =
  base_url :: string
  client_timeout :: nat

definition http_client :: "environ \<Rightarrow> client" where
  "http_client env = \<lparr>base_url = API_URL env, client_timeout = 30\<rparr>"

definition post_request :: "client \<Rightarrow> string \<Rightarrow> json \<Rightarrow> request" where
  "post_request c path payload =
     \<lparr>req_method = POST, req_url = base_url c @ path, req_json = Some payload,
      req_headers = [], req_timeout = Some (client_timeout c)\<rparr>"

definition get_request :: "client \<Rightarrow> string \<Rightarrow> request" where
  "get_request c path =
     \<lparr>req_method = GET, req_url = base_url c @ path, req_json = None,
      req_headers = [], req_timeout = Some (client_timeout c)\<rparr>"

definition client_post :: "client \<Rightarrow> service \<Rightarrow> string \<Rightarrow> json \<Rightarrow> response io" where
  "client_post c svc path payload = send svc (post_request c path payload)"

definition client_get :: "client \<Rightarrow> service \<Rightarrow> string \<Rightarrow> response io" where
  "client_get c svc path = send svc (get_request c path)"


section \<open>HTTP event pipeline tests (\<^verbatim>\<open>evals/test_http_events.py\<close>)\<close>

definition PROCESS_WAIT_SECONDS :: nat where
  "PROCESS_WAIT_SECONDS = 15"

text \<open>
  \<^verbatim>\<open>uuid.uuid4().hex\<close> is random: each test that draws one takes the 32 hex digits as its
  argument \<open>hex\<close> and slices them as the source does.
\<close>

definition critical_event :: "string \<Rightarrow> json" where
  "critical_event hex =
     (let event_id = ''eval-'' @ take 8 hex in
      JObj [(''source'', JStr ''k8s/pod/production/nginx-eval''),
            (''type'', JStr ''pod-crash''),
            (''severity'', JStr ''critical''),
            (''message'', JStr (''Pod nginx-eval in production is CrashLoopBackOff (eval ''
                                 @ event_id @ '')''))])"

definition test_push_critical_event :: "string \<Rightarrow> client \<Rightarrow> service \<Rightarrow> unit io" where
  "test_push_critical_event hex cl svc =
     io_bind (client_post cl svc ''/v0/agent/events'' (critical_event hex)) (\<lambda>resp.
     io_bind (py_assert (status_code resp = 200)) (\<lambda>_.
     io_bind (io_lift (json_of resp)) (\<lambda>body.
     io_bind (io_lift (py_getitem body ''queued'')) (\<lambda>queued.
     io_bind (py_assert (queued = JBool True)) (\<lambda>_.
     io_bind (io_lift (py_contains ''id'' body)) (\<lambda>has_id.
     py_assert has_id))))))"

definition node_pressure_event :: json where
  "node_pressure_event =
     JObj [(''source'', JStr ''k8s/node/worker-eval-1''),
           (''type'', JStr ''node-pressure''),
           (''severity'', JStr ''warning''),
           (''message'', JStr ''Node worker-eval-1 is experiencing memory pressure'')]"

definition test_push_event_updates_status :: "client \<Rightarrow> service \<Rightarrow> unit io" where
  "test_push_event_updates_status cl svc =
     io_bind (client_post cl svc ''/v0/agent/events'' node_pressure_event) (\<lambda>resp.
     io_bind (py_assert (status_code resp = 200)) (\<lambda>_.
     io_bind (io_lift (json_of resp)) (\<lambda>body.
     io_bind (io_lift (py_getitem body ''queued'')) (\<lambda>queued.
     io_bind (py_assert (queued = JBool True)) (\<lambda>_.
     io_bind (sleep PROCESS_WAIT_SECONDS) (\<lambda>_.
     io_bind (client_get cl svc ''/v0/agent/status'') (\<lambda>sresp.
     io_bind (io_lift (json_of sresp)) (\<lambda>status.
     io_bind (io_lift (py_getitem status ''running'')) (\<lambda>running.
     io_bind (py_assert (running = JBool True)) (\<lambda>_.
     io_bind (io_lift (py_getitem status ''worldState'')) (\<lambda>world_state.
     io_bind (io_lift (py_getitem world_state ''totalEvents'')) (\<lambda>total_events.
     io_bind (io_lift (py_ge total_events 1)) (\<lambda>ok.
     py_assert ok)))))))))))))"

definition oom_event :: "string \<Rightarrow> json" where
  "oom_event hex =
     (let source = ''k8s/pod/staging/api-eval-'' @ take 6 hex in
      JObj [(''source'', JStr source),
            (''type'', JStr ''pod-crash''),
            (''severity'', JStr ''critical''),
            (''message'', JStr (''Pod '' @ last (split_str CHR ''/'' source)
                                 @ '' in staging is OOMKilled''))])"

definition test_push_critical_creates_incident :: "string \<Rightarrow> client \<Rightarrow> service \<Rightarrow> unit io" where
  "test_push_critical_creates_incident hex cl svc =
     io_bind (client_post cl svc ''/v0/agent/events'' (oom_event hex)) (\<lambda>resp.
     io_bind (py_assert (status_code resp = 200)) (\<lambda>_.
     io_bind (sleep PROCESS_WAIT_SECONDS) (\<lambda>_.
     io_bind (client_get cl svc ''/v0/agent/status'') (\<lambda>sresp.
     io_bind (io_lift (json_of sresp)) (\<lambda>status.
     io_bind (io_lift (py_getitem status ''worldState'')) (\<lambda>world_state.
     io_bind (io_lift (py_getitem world_state ''activeIncidents'')) (\<lambda>active.
     io_bind (io_lift (py_ge active 1)) (\<lambda>ok.
     io_bind (py_assert ok) (\<lambda>_.
     io_bind (io_lift (py_get status ''incidents'' (JList []))) (\<lambda>incidents.
     io_bind (io_lift (py_len incidents)) (\<lambda>n.
     py_assert (n \<ge> 1))))))))))))"

definition drain_event :: json where
  "drain_event =
     JObj [(''source'', JStr ''k8s/pod/default/drain-test''),
           (''type'', JStr ''pod-restart''),
           (''severity'', JStr ''info''),
           (''message'', JStr ''Pod drain-test restarted'')]"

definition test_queue_depth_decreases :: "client \<Rightarrow> service \<Rightarrow> unit io" where
  "test_queue_depth_decreases cl svc =
     io_bind (client_post cl svc ''/v0/agent/events'' drain_event) (\<lambda>_.
     io_bind (sleep PROCESS_WAIT_SECONDS) (\<lambda>_.
     io_bind (client_get cl svc ''/v0/agent/status'') (\<lambda>sresp.
     io_bind (io_lift (json_of sresp)) (\<lambda>status.
     io_bind (io_lift (py_getitem status ''queue'')) (\<lambda>queue.
     io_bind (io_lift (py_getitem queue ''depth'')) (\<lambda>depth.
     io_bind (io_lift (py_le depth 1)) (\<lambda>drained.
     io_bind (py_assert drained) (\<lambda>_.
     io_bind (io_lift (py_getitem status ''queue'')) (\<lambda>queue.
     io_bind (io_lift (py_getitem queue ''total'')) (\<lambda>total.
     io_bind (io_lift (py_ge total 1)) (\<lambda>ok.
     py_assert ok)))))))))))"

definition missing_fields_event :: json where
  "missing_fields_event = JObj [(''source'', JStr ''test'')]"

definition test_missing_required_fields :: "client \<Rightarrow> service \<Rightarrow> unit io" where
  "test_missing_required_fields cl svc =
     io_bind (client_post cl svc ''/v0/agent/events'' missing_fields_event) (\<lambda>resp.
     py_assert (status_code resp \<ge> 400))"

definition empty_message_event :: json where
  "empty_message_event =
     JObj [(''source'', JStr ''test''), (''type'', JStr ''test''), (''message'', JStr [])]"

definition test_empty_message :: "client \<Rightarrow> service \<Rightarrow> unit io" where
  "test_empty_message cl svc =
     io_bind (client_post cl svc ''/v0/agent/events'' empty_message_event) (\<lambda>resp.
     py_assert (status_code resp \<ge> 400))"


section \<open>A pytest session\<close>

text \<open>
  What pytest does with the fixtures above. \<^verbatim>\<open>check_agent_health\<close> is session-scoped and
  autouse: it runs in the setup of the first test, and its end (value, skip or exception)
  is cached and met again by the setup of every later test. A test whose setup skips is
  reported skipped, one whose setup raises is reported as an error, and only a test whose
  setup succeeds runs its body, with the \<^verbatim>\<open>http_client\<close> fixture as the argument \<open>cl\<close>;
  a body that raises (an \<^verbatim>\<open>AssertionError\<close> or anything else) is reported failed.
  \<open>probes_run\<close> counts how often the body of \<^verbatim>\<open>check_agent_health\<close> has been executed.
\<close>

datatype report = Passed | Failed exn | Error exn | Skipped line

record session =
  trace :: "action list"
  health :: "fixture_end option"
  probes_run :: nat

type_synonym test = "client \<Rightarrow> service \<Rightarrow> unit io"

definition setup_health :: "environ \<Rightarrow> service \<Rightarrow> session \<Rightarrow> fixture_end \<times> session" where
  "setup_health env svc s =
     (case health s of
        Some r \<Rightarrow> (r, s)
      | None \<Rightarrow>
          (case check_agent_health env svc (trace s) of
             (r, tr') \<Rightarrow>
               (r, \<lparr>trace = tr', health = Some r, probes_run = Suc (probes_run s)\<rparr>)))"

definition run_test :: "environ \<Rightarrow> service \<Rightarrow> test \<Rightarrow> session \<Rightarrow> report \<times> session" where
  "run_test env svc t s =
     (case setup_health env svc s of
        (Ready, s') \<Rightarrow>
          (case t (http_client env) svc (trace s') of
             (Inr _, tr') \<Rightarrow> (Passed, s'\<lparr>trace := tr'\<rparr>)
           | (Inl e, tr') \<Rightarrow> (Failed e, s'\<lparr>trace := tr'\<rparr>))
      | (Skip msg, s') \<Rightarrow> (Skipped msg, s')
      | (Raised e, s') \<Rightarrow> (Error e, s'))"

fun run_tests :: "environ \<Rightarrow> service \<Rightarrow> test list \<Rightarrow> session \<Rightarrow> report list \<times> session" where
  "run_tests env svc [] s = ([], s)"
| "run_tests env svc (t # ts) s =
     (case run_test env svc t s of
        (r, s') \<Rightarrow> (case run_tests env svc ts s' of (rs, s'') \<Rightarrow> (r # rs, s'')))"

definition run_session :: "environ \<Rightarrow> service \<Rightarrow> test list \<Rightarrow> report list \<times> session" where
  "run_session env svc ts = run_tests env svc ts \<lparr>trace = [], health = None, probes_run = 0\<rparr>"

text \<open>The tests of \<^verbatim>\<open>test_http_events.py\<close> in the order pytest collects them.\<close>

definition TestPushEventAndCheckStatus :: "string \<Rightarrow> string \<Rightarrow> test list" where
  "TestPushEventAndCheckStatus hex1 hex2 =
     [test_push_critical_event hex1, test_push_event_updates_status,
      test_push_critical_creates_incident hex2, test_queue_depth_decreases]"

definition TestEventValidation :: "test list" where
  "TestEventValidation = [test_missing_required_fields, test_empty_message]"

definition test_http_events :: "string \<Rightarrow> string \<Rightarrow> test list" where
  "test_http_events hex1 hex2 = TestPushEventAndCheckStatus hex1 hex2 @ TestEventValidation"

text \<open>The events the harness has submitted so far: its POSTs in the trace.\<close>

fun is_post :: "action \<Rightarrow> bool" where
  "is_post (Request req) = (req_method req = POST)"
| "is_post _ = False"

definition submitted_so_far :: "action list \<Rightarrow> nat" where
  "submitted_so_far tr = length (filter is_post tr)"


section \<open>The tool-call probe (\<^verbatim>\<open>test_mcp.py\<close>)\<close>

text \<open>
  \<^verbatim>\<open>requests.post(f"{MCP_URL}/message", json=payload, headers={...})\<close>: no timeout is given.
\<close>

definition mcp_request :: "json \<Rightarrow> request" where
  "mcp_request payload =
     \<lparr>req_method = POST, req_url = MCP_URL @ ''/message'', req_json = Some payload,
      req_headers = [(''Content-Type'', ''application/json'')], req_timeout = None\<rparr>"

definition mcp_post :: "service \<Rightarrow> json \<Rightarrow> response io" where
  "mcp_post svc payload = send svc (mcp_request payload)"

text \<open>\<^verbatim>\<open>'='*60\<close>, and the UTF-8 bytes of the check mark, the ballot X and the hourglass.\<close>

definition rule60 :: string where
  "rule60 = replicate 60 CHR ''=''"

definition check_mark :: string where
  "check_mark = [CHR 0xE2, CHR 0x9C, CHR 0x93]"

definition ballot_x :: string where
  "ballot_x = [CHR 0xE2, CHR 0x9C, CHR 0x97]"

definition hourglass :: string where
  "hourglass = [CHR 0xE2, CHR 0x8F, CHR 0xB3]"

definition tools_call_payload :: "string \<Rightarrow> json \<Rightarrow> json" where
  "tools_call_payload tool_name arguments =
     JObj [(''jsonrpc'', JStr ''2.0''), (''id'', JInt 1), (''method'', JStr ''tools/call''),
           (''params'', JObj [(''name'', JStr tool_name),
                              (''arguments'', py_or arguments (JObj []))])]"

definition call_mcp_tool :: "service \<Rightarrow> string \<Rightarrow> json \<Rightarrow> json io" where
  "call_mcp_tool svc tool_name arguments =
     (let payload = tools_call_payload tool_name arguments in
      io_bind (print [Lit (CHR 0x0A # rule60)]) (\<lambda>_.
      io_bind (print [Lit ''Calling tool: '', Lit tool_name]) (\<lambda>_.
      io_bind (print [Lit ''Arguments: '', Dumps arguments]) (\<lambda>_.
      io_bind (print [Lit (rule60 @ [CHR 0x0A])]) (\<lambda>_.
      io_bind (mcp_post svc payload) (\<lambda>response.
      if status_code response = 200 then
        io_bind (io_lift (json_of response)) (\<lambda>result.
        io_bind (print [Lit (check_mark @ '' Success!'')]) (\<lambda>_.
        io_bind (print [Dumps result]) (\<lambda>_.
        io_return result)))
      else
        io_bind (print [Lit (ballot_x @ '' Error: ''), Fmt (JInt (int (status_code response)))]) (\<lambda>_.
        io_bind (print [Lit (resp_text response)]) (\<lambda>_.
        io_return JNull))))))))"

text \<open>
  The loop of \<^verbatim>\<open>list_tools\<close>. \<^verbatim>\<open>or\<close> evaluates its right operand only when the left one is
  false; every \<^verbatim>\<open>tool["name"]\<close> is a fresh read.
\<close>

definition tool_line :: "json \<Rightarrow> line io" where
  "tool_line tool =
     io_bind (io_lift (py_getitem tool ''name'')) (\<lambda>name.
     io_bind (io_lift (py_get tool ''description'' (JStr ''No description''))) (\<lambda>descr.
     io_return [Lit ''  - '', Fmt name, Lit '': '', Fmt descr]))"

definition tool_selected :: "json \<Rightarrow> bool io" where
  "tool_selected tool =
     io_bind (io_lift (py_getitem tool ''name'')) (\<lambda>name.
     io_bind (io_lift (py_contains ''master'' name)) (\<lambda>master.
     if master then io_return True
     else io_bind (io_lift (py_getitem tool ''name'')) (\<lambda>name'.
          io_lift (py_contains ''event'' name'))))"

fun print_tools :: "json list \<Rightarrow> unit io" where
  "print_tools [] = io_return ()"
| "print_tools (tool # tools) =
     io_bind (tool_selected tool) (\<lambda>selected.
     io_bind (if selected then io_bind (tool_line tool) print else io_return ()) (\<lambda>_.
     print_tools tools))"

definition tools_list_payload :: json where
  "tools_list_payload =
     JObj [(''jsonrpc'', JStr ''2.0''), (''id'', JInt 1), (''method'', JStr ''tools/list''),
           (''params'', JObj [])]"

definition list_tools :: "service \<Rightarrow> json io" where
  "list_tools svc =
     (let payload = tools_list_payload in
      io_bind (print [Lit (CHR 0x0A # rule60)]) (\<lambda>_.
      io_bind (print [Lit ''Listing available MCP tools'']) (\<lambda>_.
      io_bind (print [Lit (rule60 @ [CHR 0x0A])]) (\<lambda>_.
      io_bind (mcp_post svc payload) (\<lambda>response.
      if status_code response = 200 then
        io_bind (io_lift (json_of response)) (\<lambda>result.
        io_bind (io_lift (py_contains ''result'' result)) (\<lambda>has_result.
        io_bind (if has_result
                 then io_bind (io_lift (py_getitem result ''result'')) (\<lambda>r.
                      io_lift (py_contains ''tools'' r))
                 else io_return False) (\<lambda>has_tools.
        io_bind (if has_tools
                 then io_bind (io_lift (py_getitem result ''result'')) (\<lambda>r.
                      io_bind (io_lift (py_getitem r ''tools'')) (\<lambda>tools.
                      io_bind (io_lift (py_len tools)) (\<lambda>n.
                      io_bind (print [Lit ''Found '', Fmt (JInt (int n)), Lit '' tools:'']) (\<lambda>_.
                      io_bind (io_lift (py_iter tools)) print_tools))))
                 else io_return ()) (\<lambda>_.
        io_return result))))
      else
        io_bind (print [Lit (ballot_x @ '' Error: ''), Fmt (JInt (int (status_code response)))]) (\<lambda>_.
        io_bind (print [Lit (resp_text response)]) (\<lambda>_.
        io_return JNull)))))))"

text \<open>The script's \<^verbatim>\<open>__main__\<close> block.\<close>

definition mcp_main :: "service \<Rightarrow> unit io" where
  "mcp_main svc =
     io_bind (print [Lit ''Agent Registry MCP Tool Tester'']) (\<lambda>_.
     io_bind (print [Lit rule60]) (\<lambda>_.
     io_bind (list_tools svc) (\<lambda>_.
     io_bind (call_mcp_tool svc ''get_master_agent_status'' JNull) (\<lambda>_.
     io_bind (call_mcp_tool svc ''emit_event''
                (JObj [(''type'', JStr ''test-event''),
                       (''message'', JStr ''Testing MCP integration - simulated pod crash''),
                       (''severity'', JStr ''warning''),
                       (''source'', JStr ''mcp-test-client'')])) (\<lambda>_.
     io_bind (print [Lit (CHR 0x0A # hourglass
                          @ '' Waiting 3 seconds for master agent to process event...'')]) (\<lambda>_.
     io_bind (sleep 3) (\<lambda>_.
     io_bind (call_mcp_tool svc ''get_master_agent_status'' JNull) (\<lambda>_.
     io_bind (call_mcp_tool svc ''get_recent_events'' (JObj [(''limit'', JInt 10)])) (\<lambda>_.
     io_bind (print [Lit (CHR 0x0A # rule60)]) (\<lambda>_.
     io_bind (print [Lit (check_mark @ '' Test complete!'')]) (\<lambda>_.
     print [Lit rule60])))))))))))"


section \<open>Specification vocabulary\<close>



text \<open>
  What the tool enumeration is said to display: a tool whose name contains \<open>master\<close> or
  \<open>event\<close> as a substring (\<^const>\<open>sublist\<close> is the contiguous one), on one line with its
  name and its description.
\<close>

definition tool_shown :: "(string \<times> json) list \<Rightarrow> bool" where
  "tool_shown t =
     (case map_of t ''name'' of
        Some (JStr nm) \<Rightarrow> sublist ''master'' nm \<or> sublist ''event'' nm
      | _ \<Rightarrow> False)"

definition shown_line :: "(string \<times> json) list \<Rightarrow> action" where
  "shown_line t =
     Print [Lit ''  - '', Fmt (case map_of t ''name'' of None \<Rightarrow> JNull | Some nm \<Rightarrow> nm),
            Lit '': '',
            Fmt (case map_of t ''description'' of
                   None \<Rightarrow> JStr ''No description'' | Some d \<Rightarrow> d)]"


section \<open>Example services\<close>

text \<open>
  Services to run the harness against. Each answers a POST with the acknowledgement and a
  GET with a fixed status snapshot; the tests never read the raw text of a response.
\<close>

definition ack_response :: response where
  "ack_response =
     \<lparr>status_code = 200, resp_text = [],
      resp_json = Some (JObj [(''queued'', JBool True), (''id'', JStr ''evt-1'')])\<rparr>"

definition snapshot_service :: "json \<Rightarrow> service" where
  "snapshot_service snapshot tr req =
     (if req_method req = POST then Inr ack_response
      else Inr \<lparr>status_code = 200, resp_text = [], resp_json = Some snapshot\<rparr>)"

text \<open>A snapshot whose queue counter stands at 1, whatever was submitted.\<close>

definition lagging_snapshot :: json where
  "lagging_snapshot =
     JObj [(''running'', JBool True),
           (''worldState'', JObj [(''totalEvents'', JInt 1), (''activeIncidents'', JInt 1)]),
           (''queue'', JObj [(''depth'', JInt 0), (''total'', JInt 1)]),
           (''incidents'', JList [JObj [(''id'', JStr ''inc-1'')]])]"

text \<open>A snapshot of an agent that is not running and has counted no event, with one open incident.\<close>

definition stopped_snapshot :: json where
  "stopped_snapshot =
     JObj [(''running'', JBool False),
           (''worldState'', JObj [(''totalEvents'', JInt 0), (''activeIncidents'', JInt 1)]),
           (''queue'', JObj [(''depth'', JInt 0), (''total'', JInt 1)]),
           (''incidents'', JList [JObj [(''id'', JStr ''inc-1'')]])]"

text \<open>A service that rejects every submission with 422 and reports 503 on anything else.\<close>

definition rejecting_service :: service where
  "rejecting_service tr req =
     (if req_method req = POST
      then Inr \<lparr>status_code = 422, resp_text = ''invalid event'', resp_json = None\<rparr>
      else Inr \<lparr>status_code = 503, resp_text = ''unavailable'', resp_json = None\<rparr>)"

text \<open>A tool-call endpoint that lists three tools.\<close>

definition tools_result :: json where
  "tools_result =
     JObj [(''jsonrpc'', JStr ''2.0''), (''id'', JInt 1),
           (''result'', JObj [(''tools'',
              JList [JObj [(''name'', JStr ''get_master_agent_status''),
                           (''description'', JStr ''Status of the master agent'')],
                     JObj [(''name'', JStr ''list_agents'')],
                     JObj [(''name'', JStr ''emit_event'')]])])]"

definition tools_service :: service where
  "tools_service tr req =
     Inr \<lparr>status_code = 200, resp_text = [], resp_json = Some tools_result\<rparr>"

text \<open>Two draws of \<^verbatim>\<open>uuid.uuid4().hex\<close>.\<close>

definition hex_a :: string where
  "hex_a = ''3f2a9c0e5b7d4e1f8a6b2c4d9e0f1a2b''"

definition hex_b :: string where
  "hex_b = ''c0ffee1234564890abcdefabcdef0123''"


section \<open>Evaluation lemmas\<close>

lemmas io_defs = io_return_def io_raise_def io_bind_def io_lift_def py_assert_def send_def
  sleep_def print_def client_post_def client_get_def mcp_post_def

lemma run_tests_cached_skip:
  "health s = Some (Skip m) \<Longrightarrow> run_tests env svc ts s = (replicate (length ts) (Skipped m), s)"
  by (induction ts) (simp_all add: run_test_def setup_health_def)

lemma run_tests_cached_raised:
  "health s = Some (Raised e) \<Longrightarrow> run_tests env svc ts s = (replicate (length ts) (Error e), s)"
  by (induction ts) (simp_all add: run_test_def setup_health_def)

lemma run_session_skip:
  assumes "check_agent_health env svc [] = (Skip m, tr')" and "ts \<noteq> []"
  shows "run_session env svc ts =
    (replicate (length ts) (Skipped m),
     \<lparr>trace = tr', health = Some (Skip m), probes_run = 1\<rparr>)"
proof -
  from assms(2) obtain t ts' where ts: "ts = t # ts'" by (cases ts) auto
  show ?thesis
    using assms(1)
    by (simp add: ts run_session_def run_test_def setup_health_def run_tests_cached_skip)
qed

lemma run_session_raised:
  assumes "check_agent_health env svc [] = (Raised e, tr')" and "ts \<noteq> []"
  shows "run_session env svc ts =
    (replicate (length ts) (Error e),
     \<lparr>trace = tr', health = Some (Raised e), probes_run = 1\<rparr>)"
proof -
  from assms(2) obtain t ts' where ts: "ts = t # ts'" by (cases ts) auto
  show ?thesis
    using assms(1)
    by (simp add: ts run_session_def run_test_def setup_health_def run_tests_cached_raised)
qed

lemma run_test_cached:
  "health s \<noteq> None \<Longrightarrow>
   health (snd (run_test env svc t s)) = health s
   \<and> probes_run (snd (run_test env svc t s)) = probes_run s"
  by (auto simp: run_test_def setup_health_def split: fixture_end.splits prod.splits sum.splits)

lemma run_tests_cached:
  "health s \<noteq> None \<Longrightarrow>
   health (snd (run_tests env svc ts s)) = health s
   \<and> probes_run (snd (run_tests env svc ts s)) = probes_run s"
proof (induction ts arbitrary: s)
  case Nil
  then show ?case by simp
next
  case (Cons t ts)
  obtain r s' where step: "run_test env svc t s = (r, s')"
    by (cases "run_test env svc t s")
  with run_test_cached [OF Cons.prems, of env svc t]
  have same: "health s' = health s" "probes_run s' = probes_run s"
    by simp_all
  with Cons.prems have "health s' \<noteq> None"
    by simp
  from Cons.IH [OF this] same show ?case
    by (auto simp: step split: prod.splits)
qed

lemma run_test_first:
  "health s = None \<Longrightarrow>
   health (snd (run_test env svc t s)) \<noteq> None
   \<and> probes_run (snd (run_test env svc t s)) = Suc (probes_run s)"
  by (auto simp: run_test_def setup_health_def split: fixture_end.splits prod.splits sum.splits)

lemma health_probe_runs_once:
  assumes "ts \<noteq> []"
  shows "probes_run (snd (run_session env svc ts)) = 1"
proof -
  from assms obtain t ts' where ts: "ts = t # ts'"
    by (cases ts) auto
  let ?s0 = "\<lparr>trace = [], health = None, probes_run = 0\<rparr>"
  obtain r s' where step: "run_test env svc t ?s0 = (r, s')"
    by (cases "run_test env svc t ?s0")
  with run_test_first [of ?s0 env svc t]
  have first: "health s' \<noteq> None" "probes_run s' = 1"
    by simp_all
  from run_tests_cached [OF first(1), of env svc ts'] first(2) show ?thesis
    by (auto simp: run_session_def ts step split: prod.splits)
qed

lemma length_test_http_events: "length (test_http_events h1 h2) = 6"
  by (simp add: test_http_events_def TestPushEventAndCheckStatus_def TestEventValidation_def)

lemma test_http_events_not_Nil: "test_http_events h1 h2 \<noteq> []"
  by (simp add: test_http_events_def TestPushEventAndCheckStatus_def)

lemma check_agent_health_raises:
  "svc tr (health_probe env) = Inl e \<Longrightarrow>
   check_agent_health env svc tr =
     (if health_gate_catches e
      then Skip [Lit ''Master agent not reachable at '', Lit (API_URL env), Lit '': '', FmtExn e]
      else Raised e, tr @ [Request (health_probe env)])"
  by (simp add: check_agent_health_def io_defs)

lemma check_agent_health_response:
  "svc tr (health_probe env) = Inr resp \<Longrightarrow>
   check_agent_health env svc tr =
     (if is_success resp then Ready
      else Skip [Lit ''Master agent not reachable at '', Lit (API_URL env), Lit '': '',
                 FmtExn (HTTPStatusError (status_code resp))],
      tr @ [Request (health_probe env)])"
  by (simp add: check_agent_health_def io_defs raise_for_status_def)

lemma health_gate_catches_iff:
  "health_gate_catches e \<longleftrightarrow>
     e \<in> {ConnectError, TimeoutException, ConnectTimeout, ReadTimeout, WriteTimeout, PoolTimeout}
         \<union> range HTTPStatusError"
  by (cases e) auto


section \<open>Configuration\<close>

text \<open>
  C8. The primary API base URL is the value of \<^verbatim>\<open>MASTER_AGENT_API_URL\<close>, and
  \<^verbatim>\<open>http://localhost:8080\<close> when the variable is unset; the agent-card and streaming base
  URL is the value of \<^verbatim>\<open>MASTER_AGENT_A2A_URL\<close>, and \<^verbatim>\<open>http://localhost:8084\<close> when unset,
  in \<^verbatim>\<open>conftest.py\<close> and in \<^verbatim>\<open>master_agent/agent.py\<close> alike. The shared client, the health
  probe and the agent card are built on them. The tool-call probe's base URL is the
  constant \<^verbatim>\<open>http://localhost:8083\<close>: every request of the probe goes to
  \<^verbatim>\<open>http://localhost:8083/message\<close>, and no environment enters it.
\<close>

theorem configuration_resolution:
  "API_URL env =
     (case env ''MASTER_AGENT_API_URL'' of None \<Rightarrow> ''http://localhost:8080'' | Some v \<Rightarrow> v)
   \<and> A2A_URL env =
     (case env ''MASTER_AGENT_A2A_URL'' of None \<Rightarrow> ''http://localhost:8084'' | Some v \<Rightarrow> v)
   \<and> agent_A2A_URL env = A2A_URL env
   \<and> base_url (http_client env) = API_URL env
   \<and> req_url (health_probe env) = API_URL env @ ''/v0/agent/status''
   \<and> agent_card env = A2A_URL env @ ''/.well-known/agent-card.json''
   \<and> MCP_URL = ''http://localhost:8083''
   \<and> req_url (mcp_request payload) = ''http://localhost:8083/message''
   \<and> snd (mcp_post svc payload tr) = tr @ [Request (mcp_request payload)]"
  by (simp add: API_URL_def A2A_URL_def agent_A2A_URL_def getenv_def http_client_def
      health_probe_def agent_card_def MCP_URL_def mcp_post_def mcp_request_def send_def)


section \<open>The health gate\<close>

text \<open>
  C5. When the session's first status probe of the configured base URL raises a connection
  error or a timeout, or is answered with a status outside the success range, every test
  of the session is reported skipped and none failed. The skip message names the URL the
  probe could not reach and embeds the failure, the probe is the only request the session
  makes, and the body of the health fixture runs once in a session, whatever the service
  answers.
\<close>

theorem health_gate_skips_session:
  assumes tests: "ts \<noteq> []"
    and probe:
      "svc [] (health_probe env) = Inl ConnectError \<and> exc = ConnectError
       \<or> svc [] (health_probe env) = Inl exc
           \<and> exc \<in> {TimeoutException, ConnectTimeout, ReadTimeout, WriteTimeout, PoolTimeout}
       \<or> (\<exists>resp. svc [] (health_probe env) = Inr resp
             \<and> \<not> (200 \<le> status_code resp \<and> status_code resp \<le> 299)
             \<and> exc = HTTPStatusError (status_code resp))"
  shows "run_session env svc ts =
    (replicate (length ts)
       (Skipped [Lit ''Master agent not reachable at '', Lit (API_URL env), Lit '': '', FmtExn exc]),
     \<lparr>trace = [Request (health_probe env)],
      health = Some (Skip [Lit ''Master agent not reachable at '', Lit (API_URL env), Lit '': '',
                           FmtExn exc]),
      probes_run = 1\<rparr>)
    \<and> req_url (health_probe env) = API_URL env @ ''/v0/agent/status''
    \<and> (\<forall>svc'. probes_run (snd (run_session env svc' ts)) = 1)"
proof -
  let ?m = "[Lit ''Master agent not reachable at '', Lit (API_URL env), Lit '': '', FmtExn exc]"
  have "check_agent_health env svc [] = (Skip ?m, [Request (health_probe env)])"
    using probe
    by (auto simp: check_agent_health_raises check_agent_health_response is_success_def)
  then have "run_session env svc ts =
      (replicate (length ts) (Skipped ?m),
       \<lparr>trace = [Request (health_probe env)], health = Some (Skip ?m), probes_run = 1\<rparr>)"
    using tests by (rule run_session_skip)
  then show ?thesis
    using tests by (simp add: health_probe_runs_once health_probe_def)
qed

theorem health_gate_skips_session_witness:
  "run_session Map.empty rejecting_service (test_http_events hex_a hex_b) =
    (replicate 6
       (Skipped [Lit ''Master agent not reachable at '', Lit ''http://localhost:8080'', Lit '': '',
                 FmtExn (HTTPStatusError 503)]),
     \<lparr>trace = [Request \<lparr>req_method = GET, req_url = ''http://localhost:8080/v0/agent/status'',
                         req_json = None, req_headers = [], req_timeout = Some 5\<rparr>],
      health = Some (Skip [Lit ''Master agent not reachable at '', Lit ''http://localhost:8080'',
                           Lit '': '', FmtExn (HTTPStatusError 503)]),
      probes_run = 1\<rparr>)"
  using health_gate_skips_session [of "test_http_events hex_a hex_b" rejecting_service Map.empty
      "HTTPStatusError 503"]
  by (simp add: length_test_http_events test_http_events_not_Nil
      rejecting_service_def health_probe_def API_URL_def getenv_def)

text \<open>
  C9. The health gate turns into a skip exactly the exceptions of three classes: the
  connection error, the timeout (with its subclasses) and the HTTP status error. Any other
  exception the probe raises, an invalid-URL error for one, is not caught: every test is
  then reported as an error, none as skipped. The probe is sent with a timeout of 5
  seconds, the requests of the shared scenario client with one of 30.
\<close>

theorem health_gate_exception_filter:
  assumes probe: "svc [] (health_probe env) = Inl e" and tests: "ts \<noteq> []"
  shows "req_timeout (health_probe env) = Some 5
    \<and> client_timeout (http_client env) = 30
    \<and> req_timeout (post_request (http_client env) path payload) = Some 30
    \<and> req_timeout (get_request (http_client env) path) = Some 30
    \<and> fst (run_session env svc ts) =
        (if e \<in> {ConnectError, TimeoutException, ConnectTimeout, ReadTimeout, WriteTimeout,
                  PoolTimeout} \<or> (\<exists>code. e = HTTPStatusError code)
         then replicate (length ts)
                (Skipped [Lit ''Master agent not reachable at '', Lit (API_URL env), Lit '': '',
                          FmtExn e])
         else replicate (length ts) (Error e))"
proof -
  have h: "check_agent_health env svc [] =
     (if health_gate_catches e
      then Skip [Lit ''Master agent not reachable at '', Lit (API_URL env), Lit '': '', FmtExn e]
      else Raised e, [Request (health_probe env)])"
    using probe by (simp add: check_agent_health_raises)
  have "fst (run_session env svc ts) =
        (if health_gate_catches e
         then replicate (length ts)
                (Skipped [Lit ''Master agent not reachable at '', Lit (API_URL env), Lit '': '',
                          FmtExn e])
         else replicate (length ts) (Error e))"
  proof (cases "health_gate_catches e")
    case True
    with h tests show ?thesis by (simp add: run_session_skip)
  next
    case False
    with h tests show ?thesis by (simp add: run_session_raised)
  qed
  then show ?thesis
    by (auto simp: health_gate_catches_iff health_probe_def http_client_def post_request_def
        get_request_def)
qed

theorem health_gate_exception_filter_witness:
  "fst (run_session Map.empty (\<lambda>tr req. Inl InvalidURL) (test_http_events hex_a hex_b)) =
     replicate 6 (Error InvalidURL)
   \<and> fst (run_session Map.empty (\<lambda>tr req. Inl ReadTimeout) (test_http_events hex_a hex_b)) =
     replicate 6 (Skipped [Lit ''Master agent not reachable at '', Lit ''http://localhost:8080'',
                           Lit '': '', FmtExn ReadTimeout])"
  using health_gate_exception_filter [of "\<lambda>tr req. Inl InvalidURL" Map.empty InvalidURL
      "test_http_events hex_a hex_b"]
    health_gate_exception_filter [of "\<lambda>tr req. Inl ReadTimeout" Map.empty ReadTimeout
      "test_http_events hex_a hex_b"]
  by (simp add: length_test_http_events test_http_events_not_Nil API_URL_def getenv_def)


section \<open>The event scenarios\<close>

lemmas test_defs = test_push_critical_event_def test_push_event_updates_status_def
  test_push_critical_creates_incident_def test_queue_depth_decreases_def
  test_missing_required_fields_def test_empty_message_def



lemma critical_event_hex_a:
  "critical_event hex_a =
     JObj [(''source'', JStr ''k8s/pod/production/nginx-eval''),
           (''type'', JStr ''pod-crash''),
           (''severity'', JStr ''critical''),
           (''message'',
            JStr ''Pod nginx-eval in production is CrashLoopBackOff (eval eval-3f2a9c0e)'')]"
  by (simp add: critical_event_def hex_a_def)

lemma oom_event_hex_b:
  "oom_event hex_b =
     JObj [(''source'', JStr ''k8s/pod/staging/api-eval-c0ffee''),
           (''type'', JStr ''pod-crash''),
           (''severity'', JStr ''critical''),
           (''message'', JStr ''Pod api-eval-c0ffee in staging is OOMKilled'')]"
  by (simp add: oom_event_def hex_b_def)



text \<open>
  C1. The incident scenario submits an Event of severity \<open>critical\<close>, sleeps the fixed
  15 seconds and fetches the status once. On a snapshot that carries the counter and the
  incident list, it passes exactly when \<open>worldState.activeIncidents\<close> is at least 1 and
  \<open>incidents\<close> is not empty (a snapshot without \<open>incidents\<close> counts as an empty list): a
  lower bound, true of every larger count and after any history \<open>tr\<close> of earlier runs.
\<close>

theorem critical_event_creates_incident:
  assumes posted: "svc tr (post_request cl ''/v0/agent/events'' (oom_event hex)) = Inr resp"
    and accepted: "status_code resp = 200"
    and fetched: "svc (tr @ [Request (post_request cl ''/v0/agent/events'' (oom_event hex)),
                             Sleep 15])
                      (get_request cl ''/v0/agent/status'') = Inr sresp"
    and snapshot: "resp_json sresp = Some (JObj status)"
      "map_of status ''worldState'' = Some (JObj world_state)"
      "map_of world_state ''activeIncidents'' = Some (JInt active)"
      "map_of status ''incidents'' = Some (JList incidents)
       \<or> map_of status ''incidents'' = None \<and> incidents = []"
  shows "py_getitem (oom_event hex) ''severity'' = Inr (JStr ''critical'')
    \<and> test_push_critical_creates_incident hex cl svc tr =
        (if 1 \<le> active \<and> incidents \<noteq> [] then Inr () else Inl AssertionError,
         tr @ [Request (post_request cl ''/v0/agent/events'' (oom_event hex)),
               Sleep 15,
               Request (get_request cl ''/v0/agent/status'')])"
  using assms
  by (auto simp: test_defs io_defs json_of_def oom_event_def PROCESS_WAIT_SECONDS_def Suc_le_eq)

theorem critical_event_creates_incident_witness:
  "test_push_critical_creates_incident hex_b (http_client Map.empty)
     (snapshot_service lagging_snapshot) [] =
   (Inr (),
    [Request (post_request (http_client Map.empty) ''/v0/agent/events'' (oom_event hex_b)),
     Sleep 15,
     Request (get_request (http_client Map.empty) ''/v0/agent/status'')])"
  using critical_event_creates_incident [where svc = "snapshot_service lagging_snapshot"
      and tr = "[]" and cl = "http_client Map.empty" and hex = hex_b and resp = ack_response
      and sresp = "\<lparr>status_code = 200, resp_text = [], resp_json = Some lagging_snapshot\<rparr>"
      and status = "[(''running'', JBool True),
           (''worldState'', JObj [(''totalEvents'', JInt 1), (''activeIncidents'', JInt 1)]),
           (''queue'', JObj [(''depth'', JInt 0), (''total'', JInt 1)]),
           (''incidents'', JList [JObj [(''id'', JStr ''inc-1'')]])]"
      and world_state = "[(''totalEvents'', JInt 1), (''activeIncidents'', JInt 1)]"
      and active = 1 and incidents = "[JObj [(''id'', JStr ''inc-1'')]]"]
  by (simp add: snapshot_service_def lagging_snapshot_def ack_response_def post_request_def
      get_request_def)

text \<open>
  C2, as the code has it. The drain scenario submits its one Event, without looking at the
  answer, sleeps the fixed 15 seconds and fetches the status once. On a snapshot that
  carries the two queue counters it passes exactly when \<open>queue.depth\<close> is at most 1 and
  \<open>queue.total\<close> is at least 1: the bound on the total is the constant 1, not the number
  of Events submitted so far.
\<close>

theorem drain_scenario_bounds:
  assumes posted: "svc tr (post_request cl ''/v0/agent/events'' drain_event) = Inr resp"
    and fetched: "svc (tr @ [Request (post_request cl ''/v0/agent/events'' drain_event), Sleep 15])
                      (get_request cl ''/v0/agent/status'') = Inr sresp"
    and snapshot: "resp_json sresp = Some (JObj status)"
      "map_of status ''queue'' = Some (JObj queue)"
      "map_of queue ''depth'' = Some (JInt n_depth)"
      "map_of queue ''total'' = Some (JInt n_total)"
  shows "test_queue_depth_decreases cl svc tr =
        (if n_depth \<le> 1 \<and> 1 \<le> n_total then Inr () else Inl AssertionError,
         tr @ [Request (post_request cl ''/v0/agent/events'' drain_event),
               Sleep 15,
               Request (get_request cl ''/v0/agent/status'')])"
  using assms
  by (simp add: test_defs io_defs json_of_def PROCESS_WAIT_SECONDS_def)

theorem drain_scenario_bounds_witness:
  "test_queue_depth_decreases (http_client Map.empty) (snapshot_service lagging_snapshot) [] =
   (Inr (),
    [Request (post_request (http_client Map.empty) ''/v0/agent/events'' drain_event),
     Sleep 15,
     Request (get_request (http_client Map.empty) ''/v0/agent/status'')])"
  using drain_scenario_bounds [where svc = "snapshot_service lagging_snapshot"
      and tr = "[]" and cl = "http_client Map.empty" and resp = ack_response
      and sresp = "\<lparr>status_code = 200, resp_text = [], resp_json = Some lagging_snapshot\<rparr>"
      and status = "[(''running'', JBool True),
           (''worldState'', JObj [(''totalEvents'', JInt 1), (''activeIncidents'', JInt 1)]),
           (''queue'', JObj [(''depth'', JInt 0), (''total'', JInt 1)]),
           (''incidents'', JList [JObj [(''id'', JStr ''inc-1'')]])]"
      and queue = "[(''depth'', JInt 0), (''total'', JInt 1)]"
      and n_depth = 0 and n_total = 1]
  by (simp add: snapshot_service_def lagging_snapshot_def ack_response_def post_request_def
      get_request_def)

text \<open>
  C2 as stated asks for \<open>queue.total\<close> to be at least the number of Events the harness has
  submitted so far. Run the four scenarios of \<^verbatim>\<open>TestPushEventAndCheckStatus\<close> in file order
  against a service whose snapshot keeps \<open>queue.total\<close> at 1: all four pass, the drain
  scenario last, although the harness has submitted four Events by the time of the final
  status fetch.
\<close>

theorem drain_total_counterexample:
  "(case run_session Map.empty (snapshot_service lagging_snapshot)
           (TestPushEventAndCheckStatus hex_a hex_b) of
      (reports, s) \<Rightarrow>
        reports = [Passed, Passed, Passed, Passed]
        \<and> submitted_so_far (trace s) = 4
        \<and> last (trace s) = Request (get_request (http_client Map.empty) ''/v0/agent/status'')
        \<and> snapshot_service lagging_snapshot (butlast (trace s))
             (get_request (http_client Map.empty) ''/v0/agent/status'') =
           Inr \<lparr>status_code = 200, resp_text = [], resp_json = Some lagging_snapshot\<rparr>
        \<and> py_getitem lagging_snapshot ''queue'' =
             Inr (JObj [(''depth'', JInt 0), (''total'', JInt 1)]))"
  by (simp add: run_session_def run_test_def setup_health_def check_agent_health_def
      TestPushEventAndCheckStatus_def test_defs io_defs json_of_def raise_for_status_def
      is_success_def snapshot_service_def lagging_snapshot_def ack_response_def
      health_probe_def http_client_def post_request_def get_request_def
      PROCESS_WAIT_SECONDS_def submitted_so_far_def)




section \<open>The shape of a convergence scenario\<close>

text \<open>
  Each of the three scenarios that wait for the agent does, in this order and at most once
  each, one submission, one sleep of the fixed 15 seconds and one status fetch; it stops
  early only by raising, and a run that passes has done all three.
\<close>

lemma updates_status_shape:
  "\<exists>ext.
          snd (test_push_event_updates_status cl svc tr) = tr @ ext
          \<and> prefix ext [Request (post_request cl ''/v0/agent/events'' node_pressure_event),
                         Sleep 15, Request (get_request cl ''/v0/agent/status'')]
          \<and> (fst (test_push_event_updates_status cl svc tr) = Inr () \<longrightarrow>
               ext = [Request (post_request cl ''/v0/agent/events'' node_pressure_event),
                      Sleep 15, Request (get_request cl ''/v0/agent/status'')])"
  by (auto simp: test_defs io_defs PROCESS_WAIT_SECONDS_def prefix_Cons
      split: sum.splits prod.splits)

lemma creates_incident_shape:
  "\<exists>ext.
          snd (test_push_critical_creates_incident hex cl svc tr) = tr @ ext
          \<and> prefix ext [Request (post_request cl ''/v0/agent/events'' (oom_event hex)),
                         Sleep 15, Request (get_request cl ''/v0/agent/status'')]
          \<and> (fst (test_push_critical_creates_incident hex cl svc tr) = Inr () \<longrightarrow>
               ext = [Request (post_request cl ''/v0/agent/events'' (oom_event hex)),
                      Sleep 15, Request (get_request cl ''/v0/agent/status'')])"
  by (auto simp: test_defs io_defs PROCESS_WAIT_SECONDS_def prefix_Cons
      split: sum.splits prod.splits)

lemma queue_depth_shape:
  "\<exists>ext.
          snd (test_queue_depth_decreases cl svc tr) = tr @ ext
          \<and> prefix ext [Request (post_request cl ''/v0/agent/events'' drain_event),
                         Sleep 15, Request (get_request cl ''/v0/agent/status'')]
          \<and> (fst (test_queue_depth_decreases cl svc tr) = Inr () \<longrightarrow>
               ext = [Request (post_request cl ''/v0/agent/events'' drain_event),
                      Sleep 15, Request (get_request cl ''/v0/agent/status'')])"
  by (auto simp: test_defs io_defs PROCESS_WAIT_SECONDS_def prefix_Cons
      split: sum.splits prod.splits)

text \<open>
  C6, as the code has it. Every convergence scenario has the shape above: one submission,
  then a single fixed sleep of 15 seconds (no polling loop), then one fresh status
  snapshot. The liveness assertions are those of the status-update scenario
  \<^verbatim>\<open>test_push_event_updates_status\<close>: on a snapshot that carries the fields, it passes
  exactly when \<open>running\<close> is \<open>true\<close> and \<open>worldState.totalEvents\<close> is at least 1, an
  inequality and not an exact value.
\<close>

theorem convergence_shape:
  assumes posted: "svc tr (post_request cl ''/v0/agent/events'' node_pressure_event) = Inr resp"
    and accepted: "status_code resp = 200" "resp_json resp = Some (JObj body)"
      "map_of body ''queued'' = Some (JBool True)"
    and fetched: "svc (tr @ [Request (post_request cl ''/v0/agent/events'' node_pressure_event),
                             Sleep 15])
                      (get_request cl ''/v0/agent/status'') = Inr sresp"
    and snapshot: "resp_json sresp = Some (JObj status)"
      "map_of status ''running'' = Some (JBool running)"
      "map_of status ''worldState'' = Some (JObj world_state)"
      "map_of world_state ''totalEvents'' = Some (JInt total_events)"
  shows "test_push_event_updates_status cl svc tr =
        (if running \<and> 1 \<le> total_events then Inr () else Inl AssertionError,
         tr @ [Request (post_request cl ''/v0/agent/events'' node_pressure_event),
               Sleep 15,
               Request (get_request cl ''/v0/agent/status'')])
    \<and> (\<forall>cl' svc' tr'. \<exists>ext.
          snd (test_push_event_updates_status cl' svc' tr') = tr' @ ext
          \<and> prefix ext [Request (post_request cl' ''/v0/agent/events'' node_pressure_event),
                         Sleep 15, Request (get_request cl' ''/v0/agent/status'')]
          \<and> (fst (test_push_event_updates_status cl' svc' tr') = Inr () \<longrightarrow>
               ext = [Request (post_request cl' ''/v0/agent/events'' node_pressure_event),
                      Sleep 15, Request (get_request cl' ''/v0/agent/status'')]))
    \<and> (\<forall>cl' svc' tr'. \<exists>ext.
          snd (test_push_critical_creates_incident hex cl' svc' tr') = tr' @ ext
          \<and> prefix ext [Request (post_request cl' ''/v0/agent/events'' (oom_event hex)),
                         Sleep 15, Request (get_request cl' ''/v0/agent/status'')]
          \<and> (fst (test_push_critical_creates_incident hex cl' svc' tr') = Inr () \<longrightarrow>
               ext = [Request (post_request cl' ''/v0/agent/events'' (oom_event hex)),
                      Sleep 15, Request (get_request cl' ''/v0/agent/status'')]))
    \<and> (\<forall>cl' svc' tr'. \<exists>ext.
          snd (test_queue_depth_decreases cl' svc' tr') = tr' @ ext
          \<and> prefix ext [Request (post_request cl' ''/v0/agent/events'' drain_event),
                         Sleep 15, Request (get_request cl' ''/v0/agent/status'')]
          \<and> (fst (test_queue_depth_decreases cl' svc' tr') = Inr () \<longrightarrow>
               ext = [Request (post_request cl' ''/v0/agent/events'' drain_event),
                      Sleep 15, Request (get_request cl' ''/v0/agent/status'')]))"
proof -
  have "test_push_event_updates_status cl svc tr =
        (if running \<and> 1 \<le> total_events then Inr () else Inl AssertionError,
         tr @ [Request (post_request cl ''/v0/agent/events'' node_pressure_event),
               Sleep 15,
               Request (get_request cl ''/v0/agent/status'')])"
    using assms by (simp add: test_defs io_defs json_of_def PROCESS_WAIT_SECONDS_def)
  with updates_status_shape creates_incident_shape queue_depth_shape show ?thesis
    by blast
qed

theorem convergence_shape_witness:
  "test_push_event_updates_status (http_client Map.empty) (snapshot_service lagging_snapshot) [] =
   (Inr (),
    [Request (post_request (http_client Map.empty) ''/v0/agent/events'' node_pressure_event),
     Sleep 15,
     Request (get_request (http_client Map.empty) ''/v0/agent/status'')])"
  using convergence_shape [where svc = "snapshot_service lagging_snapshot"
      and tr = "[]" and cl = "http_client Map.empty" and resp = ack_response
      and body = "[(''queued'', JBool True), (''id'', JStr ''evt-1'')]"
      and sresp = "\<lparr>status_code = 200, resp_text = [], resp_json = Some lagging_snapshot\<rparr>"
      and status = "[(''running'', JBool True),
           (''worldState'', JObj [(''totalEvents'', JInt 1), (''activeIncidents'', JInt 1)]),
           (''queue'', JObj [(''depth'', JInt 0), (''total'', JInt 1)]),
           (''incidents'', JList [JObj [(''id'', JStr ''inc-1'')]])]"
      and world_state = "[(''totalEvents'', JInt 1), (''activeIncidents'', JInt 1)]"
      and running = True and total_events = 1]
  by (simp add: snapshot_service_def lagging_snapshot_def ack_response_def post_request_def
      get_request_def)

text \<open>
  C6 as stated has every convergence scenario assert \<open>running\<close> and \<open>totalEvents\<close>. The
  incident scenario and the drain scenario both pass on a snapshot whose \<open>running\<close> is
  \<open>false\<close> and whose \<open>totalEvents\<close> is 0.
\<close>

theorem liveness_not_asserted_counterexample:
  "fst (test_push_critical_creates_incident hex_b (http_client Map.empty)
          (snapshot_service stopped_snapshot) []) = Inr ()
   \<and> fst (test_queue_depth_decreases (http_client Map.empty)
          (snapshot_service stopped_snapshot) []) = Inr ()
   \<and> py_getitem stopped_snapshot ''running'' = Inr (JBool False)
   \<and> py_getitem stopped_snapshot ''worldState'' =
       Inr (JObj [(''totalEvents'', JInt 0), (''activeIncidents'', JInt 1)])"
  by (simp add: test_defs io_defs json_of_def snapshot_service_def stopped_snapshot_def
      ack_response_def http_client_def post_request_def get_request_def
      PROCESS_WAIT_SECONDS_def)


section \<open>The tool-call probe\<close>

lemma str_in_sublist: "str_in needle hay \<longleftrightarrow> sublist needle hay"
  by (induction hay) (auto simp: sublist_Cons_right)

lemma print_tools_named:
  assumes "\<forall>t \<in> set tools. \<exists>nm. map_of t ''name'' = Some (JStr nm)"
  shows "print_tools (map JObj tools) tr = (Inr (), tr @ map shown_line (filter tool_shown tools))"
  using assms
proof (induction tools arbitrary: tr)
  case Nil
  then show ?case by (simp add: io_defs)
next
  case (Cons t tools)
  then obtain nm where nm: "map_of t ''name'' = Some (JStr nm)"
    by auto
  from Cons have rest: "print_tools (map JObj tools) tr' =
      (Inr (), tr' @ map shown_line (filter tool_shown tools))" for tr'
    by simp
  have shown: "tool_shown t \<longleftrightarrow> str_in ''master'' nm \<or> str_in ''event'' nm"
    by (simp add: tool_shown_def nm str_in_sublist)
  have line: "shown_line t =
      Print [Lit ''  - '', Fmt (JStr nm), Lit '': '',
             Fmt (case map_of t ''description'' of None \<Rightarrow> JStr ''No description'' | Some d \<Rightarrow> d)]"
    by (simp add: shown_line_def nm)
  show ?case
    by (simp add: nm rest io_defs tool_selected_def tool_line_def shown line)
qed

text \<open>
  C7. Whatever tool the probe calls and with whatever arguments, and likewise when it lists
  the tools: if the endpoint answers with a status other than 200, the probe prints the
  status code and then the raw body of the response, and returns \<^verbatim>\<open>None\<close> to its caller
  without raising.
\<close>

theorem probe_degrades_gracefully:
  "(\<forall>response.
      svc (tr @ [Print [Lit (CHR 0x0A # rule60)], Print [Lit ''Calling tool: '', Lit tool_name],
                 Print [Lit ''Arguments: '', Dumps arguments], Print [Lit (rule60 @ [CHR 0x0A])]])
          (mcp_request (tools_call_payload tool_name arguments)) = Inr response
      \<and> status_code response \<noteq> 200 \<longrightarrow>
      call_mcp_tool svc tool_name arguments tr =
        (Inr JNull,
         tr @ [Print [Lit (CHR 0x0A # rule60)], Print [Lit ''Calling tool: '', Lit tool_name],
               Print [Lit ''Arguments: '', Dumps arguments], Print [Lit (rule60 @ [CHR 0x0A])],
               Request (mcp_request (tools_call_payload tool_name arguments)),
               Print [Lit (ballot_x @ '' Error: ''), Fmt (JInt (int (status_code response)))],
               Print [Lit (resp_text response)]]))
   \<and> (\<forall>response.
      svc (tr @ [Print [Lit (CHR 0x0A # rule60)], Print [Lit ''Listing available MCP tools''],
                 Print [Lit (rule60 @ [CHR 0x0A])]])
          (mcp_request tools_list_payload) = Inr response
      \<and> status_code response \<noteq> 200 \<longrightarrow>
      list_tools svc tr =
        (Inr JNull,
         tr @ [Print [Lit (CHR 0x0A # rule60)], Print [Lit ''Listing available MCP tools''],
               Print [Lit (rule60 @ [CHR 0x0A])],
               Request (mcp_request tools_list_payload),
               Print [Lit (ballot_x @ '' Error: ''), Fmt (JInt (int (status_code response)))],
               Print [Lit (resp_text response)]]))"
  by (simp add: call_mcp_tool_def list_tools_def io_defs)

theorem probe_degrades_gracefully_witness:
  "call_mcp_tool rejecting_service ''emit_event'' JNull [] =
     (Inr JNull,
      [Print [Lit (CHR 0x0A # rule60)], Print [Lit ''Calling tool: '', Lit ''emit_event''],
       Print [Lit ''Arguments: '', Dumps JNull], Print [Lit (rule60 @ [CHR 0x0A])],
       Request (mcp_request (tools_call_payload ''emit_event'' JNull)),
       Print [Lit (ballot_x @ '' Error: ''), Fmt (JInt 422)],
       Print [Lit ''invalid event'']])
   \<and> list_tools rejecting_service [] =
     (Inr JNull,
      [Print [Lit (CHR 0x0A # rule60)], Print [Lit ''Listing available MCP tools''],
       Print [Lit (rule60 @ [CHR 0x0A])],
       Request (mcp_request tools_list_payload),
       Print [Lit (ballot_x @ '' Error: ''), Fmt (JInt 422)],
       Print [Lit ''invalid event'']])"
  using probe_degrades_gracefully [of rejecting_service "[]" "''emit_event''" JNull]
  by (simp add: rejecting_service_def mcp_request_def)

text \<open>
  The script itself therefore runs to its last line against an endpoint that refuses every
  request: five requests are sent, one sleep of 3 seconds is taken, nothing is raised.
\<close>

lemma mcp_main_all_refused:
  "fst (mcp_main rejecting_service []) = Inr ()
   \<and> length (filter is_post (snd (mcp_main rejecting_service []))) = 5
   \<and> filter (\<lambda>a. case a of Sleep n \<Rightarrow> True | _ \<Rightarrow> False) (snd (mcp_main rejecting_service []))
       = [Sleep 3]"
  by (simp add: mcp_main_def call_mcp_tool_def list_tools_def io_defs rejecting_service_def
      mcp_request_def)

text \<open>
  C10. When the tool enumeration is answered with status 200 and a body that decodes, the
  value it returns, whenever it returns one, is the decoded response itself, with every
  tool in it. Where the response lists tools that have string names, the probe reports the
  count of all of them and then prints one line for exactly those whose name contains
  \<open>master\<close> or \<open>event\<close>: the filter decides what is displayed, never what is returned.
\<close>

theorem list_tools_filter_display_only:
  assumes answered:
      "svc (tr @ [Print [Lit (CHR 0x0A # rule60)], Print [Lit ''Listing available MCP tools''],
                  Print [Lit (rule60 @ [CHR 0x0A])]])
           (mcp_request tools_list_payload) = Inr response"
    and ok: "status_code response = 200"
    and parsed: "resp_json response = Some result"
  shows "(\<forall>v. fst (list_tools svc tr) = Inr v \<longrightarrow> v = result)
    \<and> (\<forall>top r tools.
          result = JObj top \<and> map_of top ''result'' = Some (JObj r)
          \<and> map_of r ''tools'' = Some (JList (map JObj tools))
          \<and> (\<forall>t \<in> set tools. \<exists>nm. map_of t ''name'' = Some (JStr nm)) \<longrightarrow>
          list_tools svc tr =
            (Inr result,
             tr @ [Print [Lit (CHR 0x0A # rule60)], Print [Lit ''Listing available MCP tools''],
                   Print [Lit (rule60 @ [CHR 0x0A])],
                   Request (mcp_request tools_list_payload),
                   Print [Lit ''Found '', Fmt (JInt (int (length tools))), Lit '' tools:'']]
                @ map shown_line (filter tool_shown tools)))"
proof -
  have ret: "\<forall>v. fst (list_tools svc tr) = Inr v \<longrightarrow> v = result"
    using assms
    by (auto simp: list_tools_def io_defs json_of_def split: sum.splits prod.splits if_splits)
  have shown: "list_tools svc tr =
            (Inr result,
             tr @ [Print [Lit (CHR 0x0A # rule60)], Print [Lit ''Listing available MCP tools''],
                   Print [Lit (rule60 @ [CHR 0x0A])],
                   Request (mcp_request tools_list_payload),
                   Print [Lit ''Found '', Fmt (JInt (int (length tools))), Lit '' tools:'']]
                @ map shown_line (filter tool_shown tools))"
    if shape: "result = JObj top" "map_of top ''result'' = Some (JObj r)"
      "map_of r ''tools'' = Some (JList (map JObj tools))"
      "\<forall>t \<in> set tools. \<exists>nm. map_of t ''name'' = Some (JStr nm)" for top r tools
  proof -
    have keys: "''result'' \<in> fst ` set top" "''tools'' \<in> fst ` set r"
      using shape(2,3) by (auto dest!: map_of_SomeD intro: rev_image_eqI)
    show ?thesis
      using assms shape(1-3) keys
      by (simp add: list_tools_def io_defs json_of_def print_tools_named [OF shape(4)])
  qed
  from ret shown show ?thesis by blast
qed

theorem list_tools_filter_display_only_witness:
  "list_tools tools_service [] =
     (Inr tools_result,
      [Print [Lit (CHR 0x0A # rule60)], Print [Lit ''Listing available MCP tools''],
       Print [Lit (rule60 @ [CHR 0x0A])],
       Request (mcp_request tools_list_payload),
       Print [Lit ''Found '', Fmt (JInt 3), Lit '' tools:''],
       Print [Lit ''  - '', Fmt (JStr ''get_master_agent_status''), Lit '': '',
              Fmt (JStr ''Status of the master agent'')],
       Print [Lit ''  - '', Fmt (JStr ''emit_event''), Lit '': '', Fmt (JStr ''No description'')]])"
proof -
  let ?response = "\<lparr>status_code = 200, resp_text = [], resp_json = Some tools_result\<rparr>"
  let ?tools = "[[(''name'', JStr ''get_master_agent_status''),
                  (''description'', JStr ''Status of the master agent'')],
                 [(''name'', JStr ''list_agents'')],
                 [(''name'', JStr ''emit_event'')]]"
  have answered:
    "tools_service ([] @ [Print [Lit (CHR 0x0A # rule60)], Print [Lit ''Listing available MCP tools''],
                    Print [Lit (rule60 @ [CHR 0x0A])]])
       (mcp_request tools_list_payload) = Inr ?response"
    by (simp add: tools_service_def)
  have ok: "status_code ?response = 200" and parsed: "resp_json ?response = Some tools_result"
    by simp_all
  note shown = list_tools_filter_display_only [where svc = tools_service and tr = "[]",
      OF answered ok parsed, THEN conjunct2, rule_format,
      of "[(''jsonrpc'', JStr ''2.0''), (''id'', JInt 1),
           (''result'', JObj [(''tools'', JList (map JObj ?tools))])]"
         "[(''tools'', JList (map JObj ?tools))]" ?tools]
  from shown show ?thesis
    by (simp add: tools_result_def tool_shown_def shown_line_def str_in_sublist [symmetric])
qed

end
